theory Spec2Isabelle
  imports Main "HOL-Library.AList"
begin

section \<open>Python values and the operations the cost engine applies to them\<close>

text \<open>
  The calculator of \<^verbatim>\<open>network_cost_calculator.py\<close> works on dynamically typed data: edge
  attributes are annotated \<^verbatim>\<open>Dict[str, Union[str, int]]\<close>, a rate-card record loaded from
  JSON holds the string entry \<^verbatim>\<open>name\<close> beside its integer prices, and \<^verbatim>\<open>dict.get\<close>
  yields \<^verbatim>\<open>None\<close> for a missing key. The values are therefore \<^verbatim>\<open>None\<close>, unbounded
  integers and strings. Floating-point prices and lengths are outside this model.
\<close>

datatype pyval = PNone | PInt int | PStr string

text \<open>
  The exceptions that the modelled code can raise. \<open>KeyError\<close> carries the missing key,
  \<open>ValueError\<close> its message; a \<open>TypeError\<close> comes from \<^verbatim>\<open>+\<close> or \<^verbatim>\<open>*\<close> on operands
  that do not support it, an \<open>AttributeError\<close> from \<^verbatim>\<open>.lower()\<close> on a value that is not
  a string.
\<close>

datatype py_error = KeyError string | TypeError | ValueError string | AttributeError

text \<open>\<^verbatim>\<open>a * b\<close>: integer product, repetition of a string by an integer (empty when the
  count is not positive), \<^verbatim>\<open>TypeError\<close> otherwise; in particular whenever an operand is
  \<^verbatim>\<open>None\<close>.\<close>

fun py_mul :: "pyval \<Rightarrow> pyval \<Rightarrow> py_error + pyval" where
  "py_mul (PInt a) (PInt b) = Inr (PInt (a * b))"
| "py_mul (PInt n) (PStr s) = Inr (PStr (concat (replicate (nat n) s)))"
| "py_mul (PStr s) (PInt n) = Inr (PStr (concat (replicate (nat n) s)))"
| "py_mul _ _ = Inl TypeError"

text \<open>\<^verbatim>\<open>a + b\<close>: integer sum, string concatenation, \<^verbatim>\<open>TypeError\<close> otherwise.\<close>

fun py_add :: "pyval \<Rightarrow> pyval \<Rightarrow> py_error + pyval" where
  "py_add (PInt a) (PInt b) = Inr (PInt (a + b))"
| "py_add (PStr s) (PStr t) = Inr (PStr (s @ t))"
| "py_add _ _ = Inl TypeError"

text \<open>\<^verbatim>\<open>sum(xs)\<close>: starts from the integer 0 and adds the elements from left to right.\<close>

fun py_sum_from :: "pyval \<Rightarrow> pyval list \<Rightarrow> py_error + pyval" where
  "py_sum_from acc [] = Inr acc"
| "py_sum_from acc (x # xs) =
     (case py_add acc x of Inl e \<Rightarrow> Inl e | Inr acc' \<Rightarrow> py_sum_from acc' xs)"

definition py_sum :: "pyval list \<Rightarrow> py_error + pyval" where
  "py_sum xs = py_sum_from (PInt 0) xs"

text \<open>The text that an f-string puts for \<^verbatim>\<open>{v}\<close>: the decimal numeral of an integer,
  the string itself, \<^verbatim>\<open>None\<close> for \<^verbatim>\<open>None\<close>.\<close>

function string_of_nat :: "nat \<Rightarrow> string" where
  "string_of_nat n =
     (if n < 10 then [''0123456789'' ! n]
      else string_of_nat (n div 10) @ [''0123456789'' ! (n mod 10)])"
  by pat_completeness auto
termination
  by (relation "measure id") auto

fun py_format :: "pyval \<Rightarrow> string" where
  "py_format PNone = ''None''"
| "py_format (PInt i) = (if i < 0 then ''-'' @ string_of_nat (nat (- i)) else string_of_nat (nat i))"
| "py_format (PStr s) = s"

subsection \<open>Dictionaries\<close>

text \<open>
  A dictionary that the code only reads by key and writes by key is a map. A rate-card
  record is tested for truth (\<^verbatim>\<open>if not rate_card\<close>) and the mapping of all rate cards is
  iterated in insertion order, so both are association lists read with \<open>map_of\<close>; the
  record is falsy exactly when it is \<open>[]\<close>. The keys of a dictionary are distinct; where
  a list repeats a key, \<open>map_of\<close> reads the first entry.
\<close>

type_synonym edge_data = "string \<rightharpoonup> pyval"
type_synonym rate_card = "(string \<times> pyval) list"
type_synonym route = "string \<times> string \<times> edge_data"

text \<open>\<^verbatim>\<open>d.get(k)\<close>, \<^verbatim>\<open>d.get(k, default)\<close> and \<^verbatim>\<open>d[k]\<close>.\<close>

definition dict_get :: "(string \<rightharpoonup> pyval) \<Rightarrow> string \<Rightarrow> pyval" where
  "dict_get d k = (case d k of None \<Rightarrow> PNone | Some v \<Rightarrow> v)"

definition dict_get_default :: "(string \<rightharpoonup> 'v) \<Rightarrow> string \<Rightarrow> 'v \<Rightarrow> 'v" where
  "dict_get_default d k dflt = (case d k of None \<Rightarrow> dflt | Some v \<Rightarrow> v)"

definition dict_index :: "(string \<rightharpoonup> 'v) \<Rightarrow> string \<Rightarrow> py_error + 'v" where
  "dict_index d k = (case d k of None \<Rightarrow> Inl (KeyError k) | Some v \<Rightarrow> Inr v)"

section \<open>The graph and the calculator\<close>

text \<open>
  The networkx graph as the calculator uses it: \<open>nodes\<close> gives the attribute dictionary of
  each node id of the graph (the \<^verbatim>\<open>type\<close> attribute is a string, as \<^verbatim>\<open>get_node_type\<close>
  declares), \<open>edges\<close> is what \<^verbatim>\<open>graph.edges(data=True)\<close> enumerates, in its order.
\<close>

record nx_graph =
  nodes :: "string \<rightharpoonup> (string \<rightharpoonup> string)"
  edges :: "route list"

text \<open>\<^verbatim>\<open>self.graph\<close> and \<^verbatim>\<open>self.rate_cards\<close>.\<close>

record calculator =
  self_graph :: nx_graph
  self_rate_cards :: "(string \<times> rate_card) list"

text \<open>\<^verbatim>\<open>get_node_type\<close>: \<^verbatim>\<open>self.graph.nodes[node].get("type", "")\<close>. Indexing the node
  view with an id that the graph does not hold raises \<^verbatim>\<open>KeyError\<close>.\<close>

definition get_node_type :: "nx_graph \<Rightarrow> string \<Rightarrow> py_error + string" where
  "get_node_type g node =
     (case dict_index (nodes g) node of
        Inl e \<Rightarrow> Inl e
      | Inr attrs \<Rightarrow> Inr (dict_get_default attrs ''type'' ''''))"

text \<open>\<^verbatim>\<open>get_node_price\<close>: \<^verbatim>\<open>rate_card.get(node_type, 0)\<close>.\<close>

definition get_node_price :: "rate_card \<Rightarrow> string \<Rightarrow> pyval" where
  "get_node_price rate_card node_type = dict_get_default (map_of rate_card) node_type (PInt 0)"

text \<open>The key \<^verbatim>\<open>f"Trench/m ({edge_data.get('material')})"\<close>.\<close>

definition trench_key :: "edge_data \<Rightarrow> string" where
  "trench_key edge_data = ''Trench/m ('' @ py_format (dict_get edge_data ''material'') @ '')''"

text \<open>\<^verbatim>\<open>calculate_route_cost\<close>: both node prices are looked up first, then
  \<^verbatim>\<open>start_node_price + (length * rate) + end_node_price\<close> is evaluated from left to right,
  the product before the first sum.\<close>

fun calculate_route_cost :: "nx_graph \<Rightarrow> rate_card \<Rightarrow> route \<Rightarrow> py_error + pyval" where
  "calculate_route_cost g rate_card (start_node, end_node, edge_data) =
     (case get_node_type g start_node of
        Inl e \<Rightarrow> Inl e
      | Inr start_type \<Rightarrow>
     (case get_node_type g end_node of
        Inl e \<Rightarrow> Inl e
      | Inr end_type \<Rightarrow>
     (case py_mul (dict_get edge_data ''length'')
                  (dict_get_default (map_of rate_card) (trench_key edge_data) (PInt 0)) of
        Inl e \<Rightarrow> Inl e
      | Inr trench \<Rightarrow>
     (case py_add (get_node_price rate_card start_type) trench of
        Inl e \<Rightarrow> Inl e
      | Inr partial \<Rightarrow> py_add partial (get_node_price rate_card end_type)))))"

text \<open>\<^verbatim>\<open>get_routes\<close>: the loop appends one triple per enumerated edge.\<close>

fun get_routes_loop :: "route list \<Rightarrow> route list \<Rightarrow> route list" where
  "get_routes_loop [] routes = routes"
| "get_routes_loop ((source_node, target_node, edge_data) # rest) routes =
     get_routes_loop rest (routes @ [(source_node, target_node, edge_data)])"

definition get_routes :: "nx_graph \<Rightarrow> route list" where
  "get_routes g = get_routes_loop (edges g) []"

section \<open>Results\<close>

text \<open>
  The result maps \<^verbatim>\<open>rate_card_<name>\<close> to an inner dictionary whose values are either
  the record \<^verbatim>\<open>{"length": .., "material": .., "cost": ..}\<close> of a route or the total of
  all routes.
\<close>

datatype entry = RouteRecord pyval pyval pyval | RoutesTotal pyval

type_synonym results = "string \<rightharpoonup> (string \<rightharpoonup> entry)"

definition route_key :: "string \<Rightarrow> string \<Rightarrow> string" where
  "route_key start_node end_node = ''route_'' @ start_node @ ''--'' @ end_node"

text \<open>\<^verbatim>\<open>add_route_to_results\<close>: the inner dictionary is created when it is missing, the
  record is built from \<^verbatim>\<open>edge_data["length"]\<close> and \<^verbatim>\<open>edge_data["material"]\<close> (each raises
  \<^verbatim>\<open>KeyError\<close> on a missing key) and stored under the route key. The function returns the
  updated dictionary; when it raises, the dictionary of the caller is dropped with the
  exception.\<close>

fun add_route_to_results :: "results \<Rightarrow> string \<Rightarrow> route \<Rightarrow> pyval \<Rightarrow> py_error + results" where
  "add_route_to_results results results_key (start_node, end_node, edge_data) route_cost =
     (let results1 = (if results results_key = None then results(results_key \<mapsto> Map.empty)
                      else results)
      in case dict_index edge_data ''length'' of
           Inl e \<Rightarrow> Inl e
         | Inr len \<Rightarrow>
        (case dict_index edge_data ''material'' of
           Inl e \<Rightarrow> Inl e
         | Inr material \<Rightarrow>
        (case dict_index results1 results_key of
           Inl e \<Rightarrow> Inl e
         | Inr inner \<Rightarrow>
             Inr (results1(results_key \<mapsto>
                    inner(route_key start_node end_node \<mapsto>
                            RouteRecord len material route_cost))))))"

section \<open>The total cost under one rate card\<close>

text \<open>
  \<^verbatim>\<open>calculate_total_cost\<close> hands one \<^verbatim>\<open>calculate_route_cost\<close> task per route to a thread
  pool and awaits \<^verbatim>\<open>asyncio.gather\<close> of them. When every task returns, \<open>gather\<close> gives
  the costs in the order of the tasks; when some task raises, it raises the exception of
  the failing task that finished first. The order in which the pool finishes the tasks
  is the only thing the code leaves open, so it is a parameter: \<open>done_order\<close> lists task
  indices in the order of completion, and tasks that it does not list finish after the
  listed ones, in the order of submission.
\<close>

definition gather :: "nat list \<Rightarrow> (py_error + 'a) list \<Rightarrow> py_error + 'a list" where
  "gather done_order outcomes =
     (case List.find (\<lambda>i. i < length outcomes \<and> isl (outcomes ! i))
             (done_order @ [0..<length outcomes]) of
        Some i \<Rightarrow> Inl (projl (outcomes ! i))
      | None \<Rightarrow> Inr (map projr outcomes))"

text \<open>The loop that fills the result: the cost of each route is computed again and the
  route is added.\<close>

fun add_routes :: "nx_graph \<Rightarrow> rate_card \<Rightarrow> string \<Rightarrow> route list \<Rightarrow> results
    \<Rightarrow> py_error + results" where
  "add_routes g rate_card results_key [] results = Inr results"
| "add_routes g rate_card results_key (route # rest) results =
     (case calculate_route_cost g rate_card route of
        Inl e \<Rightarrow> Inl e
      | Inr route_cost \<Rightarrow>
     (case add_route_to_results results results_key route route_cost of
        Inl e \<Rightarrow> Inl e
      | Inr results' \<Rightarrow> add_routes g rate_card results_key rest results'))"

text \<open>The message of the \<^verbatim>\<open>ValueError\<close>: \<^verbatim>\<open>f"Rate card '{rate_card_name}' not found."\<close>.\<close>

definition not_found :: "string \<Rightarrow> py_error" where
  "not_found rate_card_name =
     ValueError (''Rate card '' @ [CHR 0x27] @ rate_card_name @ [CHR 0x27] @ '' not found.'')"

definition results_key_of :: "string \<Rightarrow> string" where
  "results_key_of rate_card_name = ''rate_card_'' @ rate_card_name"

definition total_key_of :: "string \<Rightarrow> string" where
  "total_key_of rate_card_name = results_key_of rate_card_name @ ''_routes_total''"

text \<open>\<^verbatim>\<open>calculate_total_cost\<close>. \<^verbatim>\<open>if not rate_card\<close> holds for the \<^verbatim>\<open>None\<close> of a
  missing name and for an empty record alike.\<close>

definition calculate_total_cost :: "nat list \<Rightarrow> calculator \<Rightarrow> string \<Rightarrow> py_error + results" where
  "calculate_total_cost done_order self rate_card_name =
     (case map_of (self_rate_cards self) rate_card_name of
        None \<Rightarrow> Inl (not_found rate_card_name)
      | Some rate_card \<Rightarrow>
          if rate_card = [] then Inl (not_found rate_card_name)
          else
            (case gather done_order
                    (map (calculate_route_cost (self_graph self) rate_card)
                         (get_routes (self_graph self))) of
               Inl e \<Rightarrow> Inl e
             | Inr route_costs \<Rightarrow>
            (case py_sum route_costs of
               Inl e \<Rightarrow> Inl e
             | Inr total_cost \<Rightarrow>
            (case add_routes (self_graph self) rate_card (results_key_of rate_card_name)
                    (get_routes (self_graph self))
                    (Map.empty(results_key_of rate_card_name \<mapsto> Map.empty)) of
               Inl e \<Rightarrow> Inl e
             | Inr results \<Rightarrow>
            (case dict_index results (results_key_of rate_card_name) of
               Inl e \<Rightarrow> Inl e
             | Inr inner \<Rightarrow>
                 Inr (results(results_key_of rate_card_name \<mapsto>
                        inner(total_key_of rate_card_name \<mapsto> RoutesTotal total_cost))))))))"

section \<open>All rate cards\<close>

text \<open>
  What \<^verbatim>\<open>process_graph\<close> sends to the logger: an info record with its message, or the
  error record \<^verbatim>\<open>"Error processing graph: " + str(e)\<close>, kept as the exception \<open>e\<close>.
\<close>

datatype log_record = LogInfo string | LogError py_error

text \<open>The loop over \<^verbatim>\<open>self.rate_cards.keys()\<close>: it logs the name, awaits the total cost
  and merges it with \<^verbatim>\<open>results.update\<close>. \<open>done_order n\<close> is the completion order of the
  pool during the call for the name \<open>n\<close>. The loop stops at the first exception.\<close>

fun process_loop :: "(string \<Rightarrow> nat list) \<Rightarrow> calculator \<Rightarrow> string list \<Rightarrow> results
    \<Rightarrow> log_record list \<Rightarrow> (py_error + results) \<times> log_record list" where
  "process_loop done_order self [] results logs = (Inr results, logs)"
| "process_loop done_order self (rate_card_name # rest) results logs =
     (let logs1 = logs @ [LogInfo (''Calculating costs for rate card: '' @ rate_card_name)]
      in case calculate_total_cost (done_order rate_card_name) self rate_card_name of
           Inl e \<Rightarrow> (Inl e, logs1)
         | Inr total_cost \<Rightarrow> process_loop done_order self rest (results ++ total_cost) logs1)"

text \<open>\<^verbatim>\<open>process_graph\<close>: the \<^verbatim>\<open>try\<close> block returns the merged results; the handler of
  \<^verbatim>\<open>Exception\<close> logs the error and has no \<^verbatim>\<open>return\<close>, so the call then returns Python's
  \<^verbatim>\<open>None\<close>, which is the \<open>None\<close> of the option here.\<close>

definition process_graph :: "(string \<Rightarrow> nat list) \<Rightarrow> calculator
    \<Rightarrow> results option \<times> log_record list" where
  "process_graph done_order self =
     (case process_loop done_order self (map fst (self_rate_cards self)) Map.empty [] of
        (Inr results, logs) \<Rightarrow>
          (Some results, logs @ [LogInfo ''Calculation completed successfully.''])
      | (Inl e, logs) \<Rightarrow> (None, logs @ [LogError e]))"

section \<open>Loading the rate cards\<close>

text \<open>
  \<^verbatim>\<open>__init__\<close> keys each loaded record by \<^verbatim>\<open>rate_card["name"].lower().replace(" ", "_")\<close>.
  A later record with the same key replaces the earlier one in its place, as a dictionary
  comprehension does. \<^verbatim>\<open>str.lower\<close> is Python's own method and follows the Unicode case
  mapping, which is no part of this repository: it is the parameter \<open>lower\<close> of the
  definitions below, an arbitrary function on strings. \<^verbatim>\<open>replace(" ", "_")\<close> changes
  every space of the lowered text into an underscore.
\<close>

definition normalize_name :: "(string \<Rightarrow> string) \<Rightarrow> string \<Rightarrow> string" where
  "normalize_name lower name =
     map (\<lambda>c. if c = CHR '' '' then CHR ''_'' else c) (lower name)"

fun build_rate_cards :: "(string \<Rightarrow> string) \<Rightarrow> rate_card list \<Rightarrow> (string \<times> rate_card) list
    \<Rightarrow> py_error + (string \<times> rate_card) list" where
  "build_rate_cards lower [] acc = Inr acc"
| "build_rate_cards lower (rate_card # rest) acc =
     (case dict_index (map_of rate_card) ''name'' of
        Inl e \<Rightarrow> Inl e
      | Inr (PStr name) \<Rightarrow>
          build_rate_cards lower rest (AList.update (normalize_name lower name) rate_card acc)
      | Inr _ \<Rightarrow> Inl AttributeError)"

text \<open>\<^verbatim>\<open>__init__\<close>, from the loaded graph and the loaded list of rate-card records.\<close>

definition init :: "(string \<Rightarrow> string) \<Rightarrow> rate_card list \<Rightarrow> nx_graph
    \<Rightarrow> py_error + calculator" where
  "init lower loaded_rate_cards loaded_graph =
     (case build_rate_cards lower loaded_rate_cards [] of
        Inl e \<Rightarrow> Inl e
      | Inr rcs \<Rightarrow> Inr \<lparr>self_graph = loaded_graph, self_rate_cards = rcs\<rparr>)"

section \<open>Notions of the specification and the data of the test suite\<close>

text \<open>
  The specification prices a key of a rate card with a number, or leaves it out. For a
  key \<open>k\<close> of that kind, \<open>price_of r k\<close> is its price, 0 when the key is absent.
\<close>

definition priced_or_absent :: "rate_card \<Rightarrow> string \<Rightarrow> bool" where
  "priced_or_absent r k =
     (case map_of r k of None \<Rightarrow> True | Some (PInt p) \<Rightarrow> True | Some _ \<Rightarrow> False)"

definition price_of :: "rate_card \<Rightarrow> string \<Rightarrow> int" where
  "price_of r k = (case map_of r k of Some (PInt p) \<Rightarrow> p | _ \<Rightarrow> 0)"

text \<open>The graph of the tests: node A of type Cabinet, node B of type Pot and one edge
  between them, of length 50 in verge.\<close>

definition test_graph :: nx_graph where
  "test_graph =
     \<lparr>nodes = [''A'' \<mapsto> [''type'' \<mapsto> ''Cabinet''], ''B'' \<mapsto> [''type'' \<mapsto> ''Pot'']],
      edges = [(''A'', ''B'', [''material'' \<mapsto> PStr ''verge'', ''length'' \<mapsto> PInt 50])]\<rparr>"

text \<open>The rate card of the concrete scenario, and the two records of the tests.\<close>

definition scenario_card :: rate_card where
  "scenario_card =
     [(''Cabinet'', PInt 1000), (''Pot'', PInt 100), (''Trench/m (verge)'', PInt 50)]"

definition rate_card_a :: rate_card where
  "rate_card_a =
     [(''name'', PStr ''Rate Card A''), (''Cabinet'', PInt 1000),
      (''Trench/m (verge)'', PInt 50), (''Trench/m (road)'', PInt 100),
      (''Chamber'', PInt 200), (''Pot'', PInt 100)]"

definition rate_card_b :: rate_card where
  "rate_card_b =
     [(''name'', PStr ''Rate Card B''), (''Cabinet'', PInt 1200),
      (''Trench/m (verge)'', PInt 40), (''Trench/m (road)'', PInt 80),
      (''Chamber'', PInt 200), (''Pot'', PInt 20)]"

definition test_calculator :: calculator where
  "test_calculator =
     \<lparr>self_graph = test_graph,
      self_rate_cards = [(''rate_card_a'', rate_card_a), (''rate_card_b'', rate_card_b)]\<rparr>"

text \<open>The test graph with an edge that lacks its \<^verbatim>\<open>length\<close>, and with an edge that lacks
  its \<^verbatim>\<open>material\<close>.\<close>

definition graph_without_length :: nx_graph where
  "graph_without_length = test_graph\<lparr>edges := [(''A'', ''B'', [''material'' \<mapsto> PStr ''verge''])]\<rparr>"

definition graph_without_material :: nx_graph where
  "graph_without_material = test_graph\<lparr>edges := [(''A'', ''B'', [''length'' \<mapsto> PInt 50])]\<rparr>"

section \<open>Basic facts\<close>

lemma get_routes_loop_append: "get_routes_loop es routes = routes @ es"
  by (induction es routes rule: get_routes_loop.induct) simp_all

lemma get_routes_edges: "get_routes g = edges g"
  by (simp add: get_routes_def get_routes_loop_append)

lemma lookup_price:
  "priced_or_absent r k \<Longrightarrow> dict_get_default (map_of r) k (PInt 0) = PInt (price_of r k)"
  by (auto simp: priced_or_absent_def price_of_def dict_get_default_def
           split: option.splits pyval.splits)

lemma test_graph_type_A: "get_node_type test_graph ''A'' = Inr ''Cabinet''"
  by (simp add: test_graph_def get_node_type_def dict_index_def dict_get_default_def)

lemma test_graph_type_B: "get_node_type test_graph ''B'' = Inr ''Pot''"
  by (simp add: test_graph_def get_node_type_def dict_index_def dict_get_default_def)

text \<open>Loading the two records of the tests, for every \<open>lower\<close> that lowers their two
  names as \<^verbatim>\<open>str.lower\<close> does.\<close>

lemma init_test_cards:
  assumes "lower ''Rate Card A'' = ''rate card a''"
    and "lower ''Rate Card B'' = ''rate card b''"
  shows "init lower [rate_card_a, rate_card_b] g =
     Inr \<lparr>self_graph = g,
          self_rate_cards = [(''rate_card_a'', rate_card_a), (''rate_card_b'', rate_card_b)]\<rparr>"
proof -
  have a: "map_of rate_card_a ''name'' = Some (PStr ''Rate Card A'')"
    by (simp add: rate_card_a_def)
  have b: "map_of rate_card_b ''name'' = Some (PStr ''Rate Card B'')"
    by (simp add: rate_card_b_def)
  have na: "normalize_name lower ''Rate Card A'' = ''rate_card_a''"
    by (simp add: normalize_name_def assms(1))
  have nb: "normalize_name lower ''Rate Card B'' = ''rate_card_b''"
    by (simp add: normalize_name_def assms(2))
  show ?thesis
    by (simp add: init_def dict_index_def a b na nb)
qed

lemma test_route_cost_a:
  "calculate_route_cost test_graph rate_card_a
     (''A'', ''B'', [''material'' \<mapsto> PStr ''verge'', ''length'' \<mapsto> PInt 50]) = Inr (PInt 3600)"
  by (simp add: test_graph_type_A test_graph_type_B rate_card_a_def get_node_price_def
        dict_get_default_def dict_get_def trench_key_def)

lemma test_route_cost_b:
  "calculate_route_cost test_graph rate_card_b
     (''A'', ''B'', [''material'' \<mapsto> PStr ''verge'', ''length'' \<mapsto> PInt 50]) = Inr (PInt 3220)"
  by (simp add: test_graph_type_A test_graph_type_B rate_card_b_def get_node_price_def
        dict_get_default_def dict_get_def trench_key_def)

subsection \<open>Gathering the tasks of the pool\<close>

text \<open>\<open>gather\<close> returns exactly when no task raised, and then the values in the order of
  the tasks: the order of completion only selects the exception that is raised.\<close>

lemma gather_find_None:
  "List.find (\<lambda>i. i < length outcomes \<and> isl (outcomes ! i))
      (done_order @ [0..<length outcomes]) = None
   \<longleftrightarrow> (\<forall>x \<in> set outcomes. \<not> isl x)"
proof -
  have "(\<forall>i < length outcomes. \<not> isl (outcomes ! i)) \<longleftrightarrow> (\<forall>x \<in> set outcomes. \<not> isl x)"
    by (simp add: all_set_conv_all_nth)
  then show ?thesis
    by (auto simp: find_None_iff)
qed

lemma gather_Inr_iff:
  "gather done_order outcomes = Inr vs \<longleftrightarrow>
     (\<forall>x \<in> set outcomes. \<not> isl x) \<and> vs = map projr outcomes"
proof (cases "List.find (\<lambda>i. i < length outcomes \<and> isl (outcomes ! i))
      (done_order @ [0..<length outcomes])")
  case None
  then show ?thesis
    using gather_find_None [of outcomes done_order] by (auto simp: gather_def)
next
  case (Some i)
  then show ?thesis
    using gather_find_None [of outcomes done_order] by (simp add: gather_def)
qed

lemma gather_Inl_mem:
  assumes "gather done_order outcomes = Inl e"
  shows "Inl e \<in> set outcomes"
proof -
  from assms obtain i where
    f: "List.find (\<lambda>i. i < length outcomes \<and> isl (outcomes ! i))
      (done_order @ [0..<length outcomes]) = Some i" and e: "e = projl (outcomes ! i)"
    by (auto simp: gather_def split: option.splits)
  from f have "i < length outcomes" "isl (outcomes ! i)"
    by (auto simp: find_Some_iff)
  then show ?thesis using e
    by (metis nth_mem sum.collapse(1))
qed

lemma gather_order_irrelevant:
  "gather d1 outcomes = Inr vs \<Longrightarrow> gather d2 outcomes = Inr vs"
  by (simp add: gather_Inr_iff)

lemma gather_Nil: "gather done_order [] = Inr []"
  by (simp add: gather_Inr_iff)

lemma gather_single_Inr: "gather done_order [Inr v] = Inr [v]"
  by (simp add: gather_Inr_iff)

lemma gather_single_Inl: "gather done_order [Inl e] = Inl e"
proof (cases "gather done_order [Inl e :: py_error + 'a]")
  case (Inl e')
  then have "Inl e' \<in> set [Inl e :: py_error + 'a]"
    by (rule gather_Inl_mem)
  with Inl show ?thesis by simp
next
  case (Inr vs)
  then show ?thesis by (simp add: gather_Inr_iff)
qed

section \<open>The cost of a route\<close>

text \<open>
  Claim C1. For a route whose nodes are in the graph and whose edge attributes hold an
  integer \<^verbatim>\<open>length\<close> and a string \<^verbatim>\<open>material\<close>, and a rate card that prices the two node
  types and the trench key with numbers or not at all, \<^verbatim>\<open>calculate_route_cost\<close> returns
  the price of the start type plus the length times the trench price plus the price of
  the end type, an absent key counting 0. In the concrete scenario (A a Cabinet, B a Pot,
  50 of verge, Cabinet 1000, Pot 100, verge 50 per metre) the cost is 3600.
\<close>

theorem route_cost_formula:
  assumes "get_node_type g start_node = Inr start_type"
    and "get_node_type g end_node = Inr end_type"
    and "edge_data ''length'' = Some (PInt len)"
    and "edge_data ''material'' = Some (PStr material)"
    and "priced_or_absent r start_type"
    and "priced_or_absent r end_type"
    and "priced_or_absent r (''Trench/m ('' @ material @ '')'')"
  shows "calculate_route_cost g r (start_node, end_node, edge_data) =
           Inr (PInt (price_of r start_type
                      + len * price_of r (''Trench/m ('' @ material @ '')'')
                      + price_of r end_type))"
  using assms by (simp add: get_node_price_def lookup_price trench_key_def dict_get_def)

theorem route_cost_formula_witness:
  "calculate_route_cost test_graph scenario_card
     (''A'', ''B'', [''material'' \<mapsto> PStr ''verge'', ''length'' \<mapsto> PInt 50]) = Inr (PInt 3600)"
proof -
  have l: "[''material'' \<mapsto> PStr ''verge'', ''length'' \<mapsto> PInt 50] ''length'' = Some (PInt 50)"
    by simp
  have m: "[''material'' \<mapsto> PStr ''verge'', ''length'' \<mapsto> PInt 50] ''material''
             = Some (PStr ''verge'')"
    by simp
  have p1: "priced_or_absent scenario_card ''Cabinet''"
    by (simp add: priced_or_absent_def scenario_card_def)
  have p2: "priced_or_absent scenario_card ''Pot''"
    by (simp add: priced_or_absent_def scenario_card_def)
  have p3: "priced_or_absent scenario_card (''Trench/m ('' @ ''verge'' @ '')'')"
    by (simp add: priced_or_absent_def scenario_card_def)
  have "price_of scenario_card ''Cabinet''
          + 50 * price_of scenario_card (''Trench/m ('' @ ''verge'' @ '')'')
          + price_of scenario_card ''Pot'' = 3600"
    by (simp add: price_of_def scenario_card_def)
  with route_cost_formula [OF test_graph_type_A test_graph_type_B l m p1 p2 p3]
  show ?thesis
    by (simp only:)
qed

text \<open>
  Claim C3. \<^verbatim>\<open>get_node_price\<close> returns the entry of the rate card under the node type,
  and the integer 0 when the rate card has no such key; it has no failing path. When the
  rate card does not price the material of an edge, the trench term of the route cost
  is the length times 0, so a route with numeric node prices costs the sum of the two
  node prices.
\<close>

theorem get_node_price_default:
  "get_node_price r t = (case map_of r t of None \<Rightarrow> PInt 0 | Some v \<Rightarrow> v) \<and>
   (map_of r (''Trench/m ('' @ material @ '')'') = None \<longrightarrow>
    edge_data ''material'' = Some (PStr material) \<longrightarrow>
    edge_data ''length'' = Some (PInt len) \<longrightarrow>
    get_node_type g start_node = Inr start_type \<longrightarrow>
    get_node_type g end_node = Inr end_type \<longrightarrow>
    get_node_price r start_type = PInt a \<longrightarrow>
    get_node_price r end_type = PInt b \<longrightarrow>
    calculate_route_cost g r (start_node, end_node, edge_data) = Inr (PInt (a + len * 0 + b)))"
  by (simp add: get_node_price_def dict_get_default_def trench_key_def dict_get_def)

theorem get_node_price_default_witness:
  "get_node_price scenario_card ''Chamber'' = PInt 0 \<and>
   calculate_route_cost test_graph scenario_card
     (''A'', ''B'', [''material'' \<mapsto> PStr ''road'', ''length'' \<mapsto> PInt 50]) = Inr (PInt 1100)"
proof -
  note t = get_node_price_default [where r = scenario_card and t = "''Chamber''"
      and material = "''road''" and len = 50 and g = test_graph
      and edge_data = "[''material'' \<mapsto> PStr ''road'', ''length'' \<mapsto> PInt 50]"
      and start_node = "''A''" and start_type = "''Cabinet''"
      and end_node = "''B''" and end_type = "''Pot''" and a = 1000 and b = 100]
  have h1: "map_of scenario_card (''Trench/m ('' @ ''road'' @ '')'') = None"
    by (simp add: scenario_card_def)
  have h2: "[''material'' \<mapsto> PStr ''road'', ''length'' \<mapsto> PInt 50] ''material''
              = Some (PStr ''road'')"
    by simp
  have h3: "[''material'' \<mapsto> PStr ''road'', ''length'' \<mapsto> PInt 50] ''length'' = Some (PInt 50)"
    by simp
  have h4: "get_node_price scenario_card ''Cabinet'' = PInt 1000"
    by (simp add: get_node_price_def dict_get_default_def scenario_card_def)
  have h5: "get_node_price scenario_card ''Pot'' = PInt 100"
    by (simp add: get_node_price_def dict_get_default_def scenario_card_def)
  have c: "(case map_of scenario_card ''Chamber'' of None \<Rightarrow> PInt 0 | Some v \<Rightarrow> v) = PInt 0"
    by (simp add: scenario_card_def)
  have n: "(1000::int) + 50 * 0 + 100 = 1100"
    by simp
  from t have "get_node_price scenario_card ''Chamber''
                 = (case map_of scenario_card ''Chamber'' of None \<Rightarrow> PInt 0 | Some v \<Rightarrow> v)"
    by (rule conjunct1)
  with c have first: "get_node_price scenario_card ''Chamber'' = PInt 0"
    by (simp only:)
  from t h1 h2 h3 test_graph_type_A test_graph_type_B h4 h5
  have "calculate_route_cost test_graph scenario_card
     (''A'', ''B'', [''material'' \<mapsto> PStr ''road'', ''length'' \<mapsto> PInt 50])
        = Inr (PInt (1000 + 50 * 0 + 100))"
    by blast
  with n have "calculate_route_cost test_graph scenario_card
     (''A'', ''B'', [''material'' \<mapsto> PStr ''road'', ''length'' \<mapsto> PInt 50]) = Inr (PInt 1100)"
    by (simp only:)
  with first show ?thesis
    by (rule conjI)
qed

section \<open>The type of a node\<close>

text \<open>
  Claim C9, as amended. For every node id that the graph holds, \<^verbatim>\<open>get_node_type\<close> returns
  the \<^verbatim>\<open>type\<close> attribute of the node, or the empty string when the attribute is unset,
  and does not fail. For an id that is not a node of the graph it raises \<^verbatim>\<open>KeyError\<close>.
\<close>

theorem get_node_type_of_graph_node:
  "(nodes g node = Some attrs \<longrightarrow>
      get_node_type g node = Inr (case attrs ''type'' of None \<Rightarrow> '''' | Some t \<Rightarrow> t)) \<and>
   (nodes g node = None \<longrightarrow> get_node_type g node = Inl (KeyError node))"
  by (simp add: get_node_type_def dict_index_def dict_get_default_def)

theorem get_node_type_of_graph_node_witness:
  "get_node_type test_graph ''A'' = Inr ''Cabinet'' \<and>
   get_node_type (test_graph\<lparr>nodes := [''C'' \<mapsto> Map.empty]\<rparr>) ''C'' = Inr '''' \<and>
   get_node_type test_graph ''Y'' = Inl (KeyError ''Y'')"
proof -
  have a: "nodes test_graph ''A'' = Some [''type'' \<mapsto> ''Cabinet'']"
    by (simp add: test_graph_def)
  have c: "nodes (test_graph\<lparr>nodes := [''C'' \<mapsto> Map.empty]\<rparr>) ''C'' = Some Map.empty"
    by simp
  have y: "nodes test_graph ''Y'' = None"
    by (simp add: test_graph_def)
  from a get_node_type_of_graph_node [of test_graph "''A''" "[''type'' \<mapsto> ''Cabinet'']"]
  have 1: "get_node_type test_graph ''A'' = Inr ''Cabinet''"
    by simp
  from c get_node_type_of_graph_node [of "test_graph\<lparr>nodes := [''C'' \<mapsto> Map.empty]\<rparr>" "''C''"
      Map.empty]
  have 2: "get_node_type (test_graph\<lparr>nodes := [''C'' \<mapsto> Map.empty]\<rparr>) ''C'' = Inr ''''"
    by simp
  from y get_node_type_of_graph_node [of test_graph "''Y''"]
  have 3: "get_node_type test_graph ''Y'' = Inl (KeyError ''Y'')"
    by simp
  from 1 2 3 show ?thesis
    by blast
qed

text \<open>So the call can fail: the test graph has no node Z.\<close>

theorem get_node_type_counterexample:
  "get_node_type test_graph ''Z'' = Inl (KeyError ''Z'')"
  by (simp add: get_node_type_def dict_index_def test_graph_def)

section \<open>Names that resolve to no rate card\<close>

text \<open>
  Claim C5. For every name that is not a key of the rate-card mapping,
  \<^verbatim>\<open>calculate_total_cost\<close> fails with the "not found" \<^verbatim>\<open>ValueError\<close>; the failure is the
  whole outcome, no result dictionary comes with it.
\<close>

theorem total_cost_unknown_name:
  assumes "rate_card_name \<notin> fst ` set (self_rate_cards self)"
  shows "calculate_total_cost done_order self rate_card_name = Inl (not_found rate_card_name)"
proof -
  from assms have "map_of (self_rate_cards self) rate_card_name = None"
    by (simp add: map_of_eq_None_iff)
  then show ?thesis
    by (simp add: calculate_total_cost_def)
qed

theorem total_cost_unknown_name_witness:
  "calculate_total_cost [] test_calculator ''Nonexistent Rate Card''
     = Inl (ValueError ''Rate card 'Nonexistent Rate Card' not found.'')"
proof -
  have "''Nonexistent Rate Card'' \<notin> fst ` set (self_rate_cards test_calculator)"
    by (simp add: test_calculator_def)
  from total_cost_unknown_name [OF this, of "[]"] show ?thesis
    by (simp add: not_found_def)
qed

text \<open>
  Claim C10. When the rate-card mapping holds the name with an empty record,
  \<^verbatim>\<open>calculate_total_cost\<close> fails with the same "not found" \<^verbatim>\<open>ValueError\<close> as for an absent
  name: the test is on the truth value of the record, not on the presence of the key.
\<close>

theorem total_cost_empty_record:
  "map_of (self_rate_cards self) rate_card_name = Some [] \<Longrightarrow>
   calculate_total_cost done_order self rate_card_name = Inl (not_found rate_card_name)"
  by (simp add: calculate_total_cost_def)

theorem total_cost_empty_record_witness:
  "calculate_total_cost [] \<lparr>self_graph = test_graph, self_rate_cards = [(''bare'', [])]\<rparr> ''bare''
     = Inl (not_found ''bare'')"
proof -
  have "map_of (self_rate_cards \<lparr>self_graph = test_graph, self_rate_cards = [(''bare'', [])]\<rparr>)
          ''bare'' = Some []"
    by simp
  then show ?thesis
    by (rule total_cost_empty_record)
qed

section \<open>Edges that lack an attribute\<close>

lemma route_cost_without_length:
  "edge_data ''length'' = None \<Longrightarrow>
   isl (calculate_route_cost g r (start_node, end_node, edge_data))"
  by (simp add: dict_get_def split: sum.splits)

lemma route_cost_without_material:
  assumes "edge_data ''material'' = None"
    and "edge_data ''length'' = Some (PInt len)"
    and "get_node_type g start_node = Inr start_type"
    and "get_node_type g end_node = Inr end_type"
    and "priced_or_absent r start_type"
    and "priced_or_absent r end_type"
    and "priced_or_absent r ''Trench/m (None)''"
  shows "calculate_route_cost g r (start_node, end_node, edge_data) =
           Inr (PInt (price_of r start_type + len * price_of r ''Trench/m (None)''
                      + price_of r end_type))"
  using assms by (simp add: get_node_price_def lookup_price trench_key_def dict_get_def)

lemma add_route_without_length:
  "edge_data ''length'' = None \<Longrightarrow>
   add_route_to_results results results_key (start_node, end_node, edge_data) route_cost
     = Inl (KeyError ''length'')"
  by (simp add: dict_index_def Let_def)

lemma add_route_without_material:
  "edge_data ''length'' = Some len \<Longrightarrow> edge_data ''material'' = None \<Longrightarrow>
   add_route_to_results results results_key (start_node, end_node, edge_data) route_cost
     = Inl (KeyError ''material'')"
  by (simp add: dict_index_def Let_def)

lemma add_route_incomplete:
  assumes "edge_data ''length'' = None \<or> edge_data ''material'' = None"
  shows "isl (add_route_to_results results results_key (start_node, end_node, edge_data)
                route_cost)"
proof (cases "edge_data ''length''")
  case None
  then show ?thesis
    by (simp only: add_route_without_length sum.disc)
next
  case (Some len)
  with assms have "edge_data ''material'' = None"
    by simp
  with Some show ?thesis
    by (simp only: add_route_without_material sum.disc)
qed

lemma add_routes_incomplete:
  assumes "(start_node, end_node, edge_data) \<in> set routes"
    and "edge_data ''length'' = None \<or> edge_data ''material'' = None"
  shows "isl (add_routes g r results_key routes results)"
  using assms(1)
proof (induction routes arbitrary: results)
  case Nil
  then show ?case by simp
next
  case (Cons route rest)
  show ?case
  proof (cases "calculate_route_cost g r route")
    case (Inl e)
    then show ?thesis by simp
  next
    case cost: (Inr route_cost)
    show ?thesis
    proof (cases "add_route_to_results results results_key route route_cost")
      case (Inl e)
      with cost show ?thesis by simp
    next
      case added: (Inr results')
      have "route \<noteq> (start_node, end_node, edge_data)"
      proof
        assume "route = (start_node, end_node, edge_data)"
        with added add_route_incomplete [OF assms(2), of results results_key start_node end_node
            route_cost]
        show False
          by (simp only: sum.disc)
      qed
      with Cons.prems have "(start_node, end_node, edge_data) \<in> set rest"
        by auto
      then have "isl (add_routes g r results_key rest results')"
        by (rule Cons.IH)
      with cost added show ?thesis
        by simp
    qed
  qed
qed

lemma total_cost_incomplete_edge:
  assumes "(start_node, end_node, edge_data) \<in> set (edges (self_graph self))"
    and "edge_data ''length'' = None \<or> edge_data ''material'' = None"
  shows "isl (calculate_total_cost done_order self rate_card_name)"
proof (cases "calculate_total_cost done_order self rate_card_name")
  case (Inl e)
  then show ?thesis by simp
next
  case (Inr res)
  then obtain rate_card results where
    "add_routes (self_graph self) rate_card (results_key_of rate_card_name)
       (get_routes (self_graph self))
       (Map.empty(results_key_of rate_card_name \<mapsto> Map.empty)) = Inr results"
    by (auto simp: calculate_total_cost_def split: option.splits if_splits sum.splits)
  moreover have "isl (add_routes (self_graph self) rate_card (results_key_of rate_card_name)
       (get_routes (self_graph self))
       (Map.empty(results_key_of rate_card_name \<mapsto> Map.empty)))"
    using assms by (simp only: get_routes_edges add_routes_incomplete)
  ultimately show ?thesis
    by simp
qed

text \<open>
  Claim C2, as amended. For an edge that lacks \<^verbatim>\<open>length\<close> or \<^verbatim>\<open>material\<close>:
  \<^verbatim>\<open>calculate_route_cost\<close> fails when \<^verbatim>\<open>length\<close> is the missing key; when only
  \<^verbatim>\<open>material\<close> is missing it does not fail on that account, it prices the trench under
  the key \<^verbatim>\<open>Trench/m (None)\<close>;
  \<^verbatim>\<open>add_route_to_results\<close>, which builds the record of the route, fails with
  \<^verbatim>\<open>KeyError\<close> on \<^verbatim>\<open>length\<close> when that key is missing and on \<^verbatim>\<open>material\<close> when only
  that one is, so for each key independently; and \<^verbatim>\<open>calculate_total_cost\<close> fails for
  every graph that holds such an edge.
\<close>

theorem incomplete_edge_data:
  assumes "edge_data ''length'' = None \<or> edge_data ''material'' = None"
  shows "(edge_data ''length'' = None \<longrightarrow>
            isl (calculate_route_cost g r (start_node, end_node, edge_data))) \<and>
         (edge_data ''length'' = Some (PInt len) \<longrightarrow>
          get_node_type g start_node = Inr start_type \<longrightarrow>
          get_node_type g end_node = Inr end_type \<longrightarrow>
          priced_or_absent r start_type \<longrightarrow>
          priced_or_absent r end_type \<longrightarrow>
          priced_or_absent r ''Trench/m (None)'' \<longrightarrow>
            calculate_route_cost g r (start_node, end_node, edge_data) =
              Inr (PInt (price_of r start_type + len * price_of r ''Trench/m (None)''
                         + price_of r end_type))) \<and>
         add_route_to_results results results_key (start_node, end_node, edge_data) route_cost
           = Inl (KeyError (if edge_data ''length'' = None then ''length'' else ''material'')) \<and>
         ((start_node, end_node, edge_data) \<in> set (edges (self_graph self)) \<longrightarrow>
            isl (calculate_total_cost done_order self rate_card_name))"
proof (intro conjI impI)
  assume "edge_data ''length'' = None"
  then show "isl (calculate_route_cost g r (start_node, end_node, edge_data))"
    by (rule route_cost_without_length)
next
  assume l: "edge_data ''length'' = Some (PInt len)"
    and t: "get_node_type g start_node = Inr start_type" "get_node_type g end_node = Inr end_type"
    and p: "priced_or_absent r start_type" "priced_or_absent r end_type"
      "priced_or_absent r ''Trench/m (None)''"
  from assms l have "edge_data ''material'' = None"
    by simp
  from this l t p
  show "calculate_route_cost g r (start_node, end_node, edge_data) =
              Inr (PInt (price_of r start_type + len * price_of r ''Trench/m (None)''
                         + price_of r end_type))"
    by (rule route_cost_without_material)
next
  show "add_route_to_results results results_key (start_node, end_node, edge_data) route_cost
          = Inl (KeyError (if edge_data ''length'' = None then ''length'' else ''material''))"
  proof (cases "edge_data ''length''")
    case None
    then show ?thesis
      by (simp add: add_route_without_length del: add_route_to_results.simps)
  next
    case (Some len)
    with assms have "edge_data ''material'' = None"
      by simp
    with Some show ?thesis
      by (simp add: add_route_without_material del: add_route_to_results.simps)
  qed
next
  assume "(start_node, end_node, edge_data) \<in> set (edges (self_graph self))"
  then show "isl (calculate_total_cost done_order self rate_card_name)"
    using assms by (rule total_cost_incomplete_edge)
qed

theorem incomplete_edge_data_witness:
  "isl (calculate_route_cost test_graph rate_card_a
          (''A'', ''B'', [''material'' \<mapsto> PStr ''verge''])) \<and>
   calculate_route_cost test_graph rate_card_b (''A'', ''B'', [''length'' \<mapsto> PInt 50])
      = Inr (PInt 1220) \<and>
   add_route_to_results Map.empty ''rate_card_rate_card_a''
      (''A'', ''B'', [''material'' \<mapsto> PStr ''verge'']) (PInt 0) = Inl (KeyError ''length'') \<and>
   add_route_to_results Map.empty ''rate_card_rate_card_b''
      (''A'', ''B'', [''length'' \<mapsto> PInt 50]) (PInt 1220) = Inl (KeyError ''material'') \<and>
   isl (calculate_total_cost []
          \<lparr>self_graph = graph_without_material,
           self_rate_cards = [(''rate_card_b'', rate_card_b)]\<rparr> ''rate_card_b'')"
proof -
  have l: "[''material'' \<mapsto> PStr ''verge''] ''length'' = None
             \<or> [''material'' \<mapsto> PStr ''verge''] ''material'' = None"
    by simp
  have m: "[''length'' \<mapsto> PInt 50] ''length'' = None \<or> [''length'' \<mapsto> PInt 50] ''material'' = None"
    by simp
  have e: "(''A'', ''B'', [''length'' \<mapsto> PInt 50]) \<in> set (edges (self_graph
             \<lparr>self_graph = graph_without_material,
              self_rate_cards = [(''rate_card_b'', rate_card_b)]\<rparr>))"
    by (simp add: graph_without_material_def)
  have ln: "[''material'' \<mapsto> PStr ''verge''] ''length'' = None"
    by simp
  have ml: "[''length'' \<mapsto> PInt 50] ''length'' = Some (PInt 50)"
    by simp
  have p: "priced_or_absent rate_card_b ''Cabinet''" "priced_or_absent rate_card_b ''Pot''"
    "priced_or_absent rate_card_b ''Trench/m (None)''"
    by (simp_all add: priced_or_absent_def rate_card_b_def)
  have v: "price_of rate_card_b ''Cabinet'' + 50 * price_of rate_card_b ''Trench/m (None)''
             + price_of rate_card_b ''Pot'' = 1220"
    by (simp add: price_of_def rate_card_b_def)
  note a = incomplete_edge_data [OF l, where g = test_graph and r = rate_card_a
      and start_node = "''A''" and end_node = "''B''" and results = Map.empty
      and results_key = "''rate_card_rate_card_a''" and route_cost = "PInt 0"
      and done_order = "[]" and rate_card_name = "''rate_card_a''"
      and len = 0 and start_type = "''Cabinet''" and end_type = "''Pot''"
      and self = "\<lparr>self_graph = graph_without_material,
                     self_rate_cards = [(''rate_card_b'', rate_card_b)]\<rparr>"]
  note b = incomplete_edge_data [OF m, where g = test_graph and r = rate_card_b
      and start_node = "''A''" and end_node = "''B''"
      and results = Map.empty and results_key = "''rate_card_rate_card_b''"
      and route_cost = "PInt 1220" and done_order = "[]" and rate_card_name = "''rate_card_b''"
      and len = 50 and start_type = "''Cabinet''" and end_type = "''Pot''"
      and self = "\<lparr>self_graph = graph_without_material,
                     self_rate_cards = [(''rate_card_b'', rate_card_b)]\<rparr>"]
  from a ln have 1: "isl (calculate_route_cost test_graph rate_card_a
          (''A'', ''B'', [''material'' \<mapsto> PStr ''verge'']))"
    by blast
  from b ml test_graph_type_A test_graph_type_B p
  have "calculate_route_cost test_graph rate_card_b (''A'', ''B'', [''length'' \<mapsto> PInt 50])
          = Inr (PInt (price_of rate_card_b ''Cabinet''
                       + 50 * price_of rate_card_b ''Trench/m (None)''
                       + price_of rate_card_b ''Pot''))"
    by blast
  with v have 2: "calculate_route_cost test_graph rate_card_b
                    (''A'', ''B'', [''length'' \<mapsto> PInt 50]) = Inr (PInt 1220)"
    by (simp only:)
  from a have "add_route_to_results Map.empty ''rate_card_rate_card_a''
      (''A'', ''B'', [''material'' \<mapsto> PStr ''verge'']) (PInt 0)
      = Inl (KeyError (if [''material'' \<mapsto> PStr ''verge''] ''length'' = None
                       then ''length'' else ''material''))"
    by blast
  then have 3: "add_route_to_results Map.empty ''rate_card_rate_card_a''
      (''A'', ''B'', [''material'' \<mapsto> PStr ''verge'']) (PInt 0) = Inl (KeyError ''length'')"
    by (simp del: add_route_to_results.simps)
  from b have "add_route_to_results Map.empty ''rate_card_rate_card_b''
      (''A'', ''B'', [''length'' \<mapsto> PInt 50]) (PInt 1220)
      = Inl (KeyError (if [''length'' \<mapsto> PInt 50] ''length'' = None
                       then ''length'' else ''material''))"
    by blast
  then have 4: "add_route_to_results Map.empty ''rate_card_rate_card_b''
      (''A'', ''B'', [''length'' \<mapsto> PInt 50]) (PInt 1220) = Inl (KeyError ''material'')"
    by (simp del: add_route_to_results.simps)
  from b e have 5: "isl (calculate_total_cost []
          \<lparr>self_graph = graph_without_material,
           self_rate_cards = [(''rate_card_b'', rate_card_b)]\<rparr> ''rate_card_b'')"
    by blast
  from 1 2 3 4 5 show ?thesis
    by blast
qed

text \<open>With \<^verbatim>\<open>material\<close> missing and \<^verbatim>\<open>length\<close> present, \<^verbatim>\<open>calculate_route_cost\<close>
  itself returns a number: the trench is priced under the key \<^verbatim>\<open>Trench/m (None)\<close>,
  which the rate card does not hold, so the route costs 1000 + 50 * 0 + 100.\<close>

theorem route_cost_without_material_counterexample:
  "calculate_route_cost test_graph rate_card_a (''A'', ''B'', [''length'' \<mapsto> PInt 50])
     = Inr (PInt 1100)"
  by (simp add: test_graph_type_A test_graph_type_B rate_card_a_def get_node_price_def
        dict_get_default_def dict_get_def trench_key_def)

section \<open>Properties of the total cost\<close>

lemma total_cost_order_irrelevant:
  assumes "calculate_total_cost d1 self rate_card_name = Inr results"
  shows "calculate_total_cost d2 self rate_card_name = Inr results"
proof -
  from assms obtain rate_card where
    rc: "map_of (self_rate_cards self) rate_card_name = Some rate_card" "rate_card \<noteq> []"
    by (auto simp: calculate_total_cost_def split: option.splits if_splits)
  with assms obtain route_costs where
    g1: "gather d1 (map (calculate_route_cost (self_graph self) rate_card)
                        (get_routes (self_graph self))) = Inr route_costs"
    by (auto simp: calculate_total_cost_def split: sum.splits)
  then have g2: "gather d2 (map (calculate_route_cost (self_graph self) rate_card)
                        (get_routes (self_graph self))) = Inr route_costs"
    by (rule gather_order_irrelevant)
  from assms show ?thesis
    by (simp add: calculate_total_cost_def rc g1 g2)
qed

lemma total_cost_no_edges:
  assumes "map_of (self_rate_cards self) rate_card_name = Some rate_card"
    and "rate_card \<noteq> []"
    and "edges (self_graph self) = []"
  shows "calculate_total_cost done_order self rate_card_name =
           Inr [results_key_of rate_card_name \<mapsto>
                  [total_key_of rate_card_name \<mapsto> RoutesTotal (PInt 0)]]"
  using assms
  by (simp add: calculate_total_cost_def get_routes_edges gather_Nil py_sum_def dict_index_def)

lemma update_set_cases:
  "p \<in> set (AList.update k v al) \<Longrightarrow> p = (k, v) \<or> p \<in> set al"
  by (induction al) (auto split: if_splits)

lemma build_rate_cards_nonempty:
  "build_rate_cards lower cards acc = Inr rcs \<Longrightarrow> \<forall>p \<in> set acc. snd p \<noteq> []
     \<Longrightarrow> \<forall>p \<in> set rcs. snd p \<noteq> []"
proof (induction cards arbitrary: acc)
  case Nil
  then show ?case by simp
next
  case (Cons rate_card rest)
  from Cons.prems(1) obtain name where
    n: "map_of rate_card ''name'' = Some (PStr name)"
    and b: "build_rate_cards lower rest (AList.update (normalize_name lower name) rate_card acc)
              = Inr rcs"
    by (auto simp: dict_index_def split: option.splits pyval.splits)
  from n have "rate_card \<noteq> []"
    by auto
  with Cons.prems(2)
  have "\<forall>p \<in> set (AList.update (normalize_name lower name) rate_card acc). snd p \<noteq> []"
    by (auto dest: update_set_cases)
  with b show ?case
    by (rule Cons.IH)
qed

text \<open>
  Claim C4. For every name of a rate card that \<^verbatim>\<open>__init__\<close> has loaded, when the graph has
  no edge, \<^verbatim>\<open>calculate_total_cost\<close> returns the fragment with the single key
  \<^verbatim>\<open>rate_card_<name>\<close>, whose inner dictionary holds exactly one entry: the key
  \<^verbatim>\<open>rate_card_<name>_routes_total\<close> with the value 0. (Every loaded record holds its
  \<^verbatim>\<open>name\<close>, so it is not empty.) This holds whatever function \<^verbatim>\<open>str.lower\<close> is.
\<close>

theorem total_cost_empty_graph:
  assumes "init lower loaded_rate_cards g = Inr self"
    and "rate_card_name \<in> fst ` set (self_rate_cards self)"
    and "edges g = []"
  shows "calculate_total_cost done_order self rate_card_name =
           Inr [''rate_card_'' @ rate_card_name \<mapsto>
                  [''rate_card_'' @ rate_card_name @ ''_routes_total'' \<mapsto> RoutesTotal (PInt 0)]]"
proof -
  from assms(1) obtain rcs where
    b: "build_rate_cards lower loaded_rate_cards [] = Inr rcs"
    and s: "self = \<lparr>self_graph = g, self_rate_cards = rcs\<rparr>"
    by (auto simp: init_def split: sum.splits)
  from assms(2) obtain rate_card where
    m: "map_of (self_rate_cards self) rate_card_name = Some rate_card"
    by (metis map_of_eq_None_iff not_Some_eq)
  then have "(rate_card_name, rate_card) \<in> set rcs"
    using s by (auto dest: map_of_SomeD)
  with build_rate_cards_nonempty [OF b] have "rate_card \<noteq> []"
    by fastforce
  moreover from s assms(3) have "edges (self_graph self) = []"
    by simp
  ultimately show ?thesis
    using total_cost_no_edges [OF m, of done_order]
    by (simp add: results_key_of_def total_key_of_def)
qed

theorem total_cost_empty_graph_witness:
  "calculate_total_cost []
     \<lparr>self_graph = test_graph\<lparr>edges := []\<rparr>,
      self_rate_cards = [(''rate_card_a'', rate_card_a), (''rate_card_b'', rate_card_b)]\<rparr>
     ''rate_card_a''
   = Inr [''rate_card_rate_card_a'' \<mapsto>
            [''rate_card_rate_card_a_routes_total'' \<mapsto> RoutesTotal (PInt 0)]]"
proof -
  have n: "''rate_card_a'' \<in> fst ` set (self_rate_cards
             \<lparr>self_graph = test_graph\<lparr>edges := []\<rparr>,
              self_rate_cards = [(''rate_card_a'', rate_card_a), (''rate_card_b'', rate_card_b)]\<rparr>)"
    by simp
  have e: "edges (test_graph\<lparr>edges := []\<rparr>) = []"
    by simp
  let ?lower = "map (\<lambda>c. case map_of (zip ''ABCDEFGHIJKLMNOPQRSTUVWXYZ''
                                              ''abcdefghijklmnopqrstuvwxyz'') c of
                           None \<Rightarrow> c | Some l \<Rightarrow> l)"
  have a: "?lower ''Rate Card A'' = ''rate card a''"
    by simp
  have b: "?lower ''Rate Card B'' = ''rate card b''"
    by simp
  from total_cost_empty_graph [OF init_test_cards [OF a b] n e, of "[]"] show ?thesis
    by simp
qed

lemma test_total_a:
  "calculate_total_cost done_order test_calculator ''rate_card_a'' =
     Inr [''rate_card_rate_card_a'' \<mapsto>
            [''route_A--B'' \<mapsto> RouteRecord (PInt 50) (PStr ''verge'') (PInt 3600),
             ''rate_card_rate_card_a_routes_total'' \<mapsto> RoutesTotal (PInt 3600)]]"
proof -
  have e: "edges test_graph
             = [(''A'', ''B'', [''material'' \<mapsto> PStr ''verge'', ''length'' \<mapsto> PInt 50])]"
    by (simp add: test_graph_def)
  have n: "rate_card_a \<noteq> []"
    by (simp add: rate_card_a_def)
  show ?thesis
    by (simp add: calculate_total_cost_def test_calculator_def get_routes_edges e n
          test_route_cost_a gather_single_Inr py_sum_def dict_index_def
          results_key_of_def total_key_of_def route_key_def
          del: calculate_route_cost.simps)
qed

lemma test_total_b:
  "calculate_total_cost done_order test_calculator ''rate_card_b'' =
     Inr [''rate_card_rate_card_b'' \<mapsto>
            [''route_A--B'' \<mapsto> RouteRecord (PInt 50) (PStr ''verge'') (PInt 3220),
             ''rate_card_rate_card_b_routes_total'' \<mapsto> RoutesTotal (PInt 3220)]]"
proof -
  have e: "edges test_graph
             = [(''A'', ''B'', [''material'' \<mapsto> PStr ''verge'', ''length'' \<mapsto> PInt 50])]"
    by (simp add: test_graph_def)
  have n: "rate_card_b \<noteq> []"
    by (simp add: rate_card_b_def)
  show ?thesis
    by (simp add: calculate_total_cost_def test_calculator_def get_routes_edges e n
          test_route_cost_b gather_single_Inr py_sum_def dict_index_def
          results_key_of_def total_key_of_def route_key_def
          del: calculate_route_cost.simps)
qed

text \<open>
  Claim C8. Two invocations of \<^verbatim>\<open>calculate_total_cost\<close> with the same name on the same
  calculator return identical results: when one invocation returns a result, so does any
  other, with the same result, whatever the order in which the thread pool completes the
  route tasks in each of them. The method assigns nothing to the calculator, so the second
  invocation runs on the graph and the rate cards of the first.
\<close>

theorem total_cost_deterministic:
  "calculate_total_cost first_order self rate_card_name = Inr results \<Longrightarrow>
   calculate_total_cost second_order self rate_card_name = Inr results"
  by (rule total_cost_order_irrelevant)

theorem total_cost_deterministic_witness:
  "calculate_total_cost [0] test_calculator ''rate_card_a'' =
     Inr [''rate_card_rate_card_a'' \<mapsto>
            [''route_A--B'' \<mapsto> RouteRecord (PInt 50) (PStr ''verge'') (PInt 3600),
             ''rate_card_rate_card_a_routes_total'' \<mapsto> RoutesTotal (PInt 3600)]] \<and>
   calculate_total_cost [] test_calculator ''rate_card_a'' =
     Inr [''rate_card_rate_card_a'' \<mapsto>
            [''route_A--B'' \<mapsto> RouteRecord (PInt 50) (PStr ''verge'') (PInt 3600),
             ''rate_card_rate_card_a_routes_total'' \<mapsto> RoutesTotal (PInt 3600)]]"
proof -
  note first = test_total_a [of "[0]"]
  from first have "calculate_total_cost [] test_calculator ''rate_card_a'' =
     Inr [''rate_card_rate_card_a'' \<mapsto>
            [''route_A--B'' \<mapsto> RouteRecord (PInt 50) (PStr ''verge'') (PInt 3600),
             ''rate_card_rate_card_a_routes_total'' \<mapsto> RoutesTotal (PInt 3600)]]"
    by (rule total_cost_deterministic)
  with first show ?thesis
    by (rule conjI)
qed

section \<open>Properties of the run over all rate cards\<close>

lemma add_route_to_results_dom:
  assumes "add_route_to_results results results_key route route_cost = Inr results'"
  shows "dom results' = insert results_key (dom results)"
proof -
  obtain start_node end_node edge_data where r: "route = (start_node, end_node, edge_data)"
    by (cases route)
  from assms [unfolded r] show ?thesis
    by (auto simp: dict_index_def Let_def split: option.splits if_splits)
qed

lemma add_routes_dom:
  "add_routes g r results_key routes results = Inr results' \<Longrightarrow>
   results_key \<in> dom results \<Longrightarrow> dom results' = dom results"
proof (induction routes arbitrary: results)
  case Nil
  then show ?case by simp
next
  case (Cons route rest)
  from Cons.prems(1) obtain route_cost results1 where
    a: "add_route_to_results results results_key route route_cost = Inr results1"
    and b: "add_routes g r results_key rest results1 = Inr results'"
    by (auto simp del: add_route_to_results.simps split: sum.splits)
  from add_route_to_results_dom [OF a] Cons.prems(2) have d: "dom results1 = dom results"
    by (simp add: insert_absorb)
  with Cons.prems(2) have "results_key \<in> dom results1"
    by simp
  with b have "dom results' = dom results1"
    by (rule Cons.IH)
  with d show ?case by simp
qed

lemma total_cost_dom:
  assumes "calculate_total_cost done_order self rate_card_name = Inr results"
  shows "dom results = {results_key_of rate_card_name}"
proof -
  from assms obtain rate_card results1 inner total_cost where
    a: "add_routes (self_graph self) rate_card (results_key_of rate_card_name)
          (get_routes (self_graph self))
          (Map.empty(results_key_of rate_card_name \<mapsto> Map.empty)) = Inr results1"
    and r: "results = results1(results_key_of rate_card_name \<mapsto>
                        inner(total_key_of rate_card_name \<mapsto> RoutesTotal total_cost))"
    by (auto simp: calculate_total_cost_def split: option.splits if_splits sum.splits)
  have "results_key_of rate_card_name
          \<in> dom (Map.empty(results_key_of rate_card_name \<mapsto> (Map.empty :: string \<rightharpoonup> entry)))"
    by simp
  from add_routes_dom [OF a this] have "dom results1 = {results_key_of rate_card_name}"
    by simp
  with r show ?thesis
    by simp
qed

lemma results_key_of_inj: "results_key_of n = results_key_of n' \<longleftrightarrow> n = n'"
  by (simp add: results_key_of_def)

lemma process_loop_success:
  assumes "\<forall>n \<in> set names. \<exists>r. calculate_total_cost (done_order n) self n = Inr r"
  shows "\<exists>R logs'. process_loop done_order self names results logs = (Inr R, logs') \<and>
           (\<forall>k v. R k = Some v \<longleftrightarrow>
              (\<exists>n \<in> set names. \<exists>r. calculate_total_cost (done_order n) self n = Inr r
                  \<and> r k = Some v)
              \<or> (results k = Some v \<and> k \<notin> results_key_of ` set names))"
  using assms
proof (induction names arbitrary: results logs)
  case Nil
  then show ?case by simp
next
  case (Cons name rest)
  from Cons.prems obtain r where r: "calculate_total_cost (done_order name) self name = Inr r"
    by auto
  then have dr: "dom r = {results_key_of name}"
    by (rule total_cost_dom)
  from Cons.prems have "\<forall>n \<in> set rest. \<exists>r. calculate_total_cost (done_order n) self n = Inr r"
    by simp
  from Cons.IH [OF this, of "results ++ r"
      "logs @ [LogInfo (''Calculating costs for rate card: '' @ name)]"]
  obtain R logs' where
    p: "process_loop done_order self rest (results ++ r)
          (logs @ [LogInfo (''Calculating costs for rate card: '' @ name)]) = (Inr R, logs')"
    and R: "\<forall>k v. R k = Some v \<longleftrightarrow>
              (\<exists>n \<in> set rest. \<exists>r. calculate_total_cost (done_order n) self n = Inr r
                  \<and> r k = Some v)
              \<or> ((results ++ r) k = Some v \<and> k \<notin> results_key_of ` set rest)"
    by blast
  have "R k = Some v \<longleftrightarrow>
              (\<exists>n \<in> set (name # rest). \<exists>r. calculate_total_cost (done_order n) self n = Inr r
                  \<and> r k = Some v)
              \<or> (results k = Some v \<and> k \<notin> results_key_of ` set (name # rest))" for k v
  proof (cases "k = results_key_of name")
    case True
    have other: "r' k = None"
      if "calculate_total_cost (done_order n) self n = Inr r'" "n \<noteq> name" for n r'
    proof -
      from that(1) have "dom r' = {results_key_of n}"
        by (rule total_cost_dom)
      with that(2) have "results_key_of name \<notin> dom r'"
        by (simp add: results_key_of_inj)
      with True show ?thesis
        by (simp add: domIff)
    qed
    from True dr have here: "(results ++ r) k = r k"
      by (auto simp: map_add_def domIff split: option.splits)
    show ?thesis
    proof (cases "name \<in> set rest")
      case in_rest: True
      with R r other True here show ?thesis
        by (metis image_eqI insert_iff list.simps(15) option.distinct(1) sum.inject(2))
    next
      case False
      then have "k \<notin> results_key_of ` set rest"
        using True by (auto simp: results_key_of_inj)
      with R r other True here False show ?thesis
        by (metis image_eqI insert_iff list.simps(15) option.distinct(1) sum.inject(2))
    qed
  next
    case False
    with dr have "r k = None"
      by (auto simp: domIff)
    then have "(results ++ r) k = results k"
      by (simp add: map_add_def)
    with R r False \<open>r k = None\<close> show ?thesis
      by auto
  qed
  with p r show ?case
    by simp
qed

lemma process_loop_failure:
  assumes "n \<in> set names" and "isl (calculate_total_cost (done_order n) self n)"
  shows "isl (fst (process_loop done_order self names results logs))"
  using assms(1)
proof (induction names arbitrary: results logs)
  case Nil
  then show ?case by simp
next
  case (Cons name rest)
  show ?case
  proof (cases "calculate_total_cost (done_order name) self name")
    case (Inl e)
    then show ?thesis by (simp add: Let_def)
  next
    case (Inr r)
    with assms(2) have "n \<noteq> name"
      by auto
    with Cons.prems have "n \<in> set rest"
      by simp
    then have "isl (fst (process_loop done_order self rest (results ++ r)
                 (logs @ [LogInfo (''Calculating costs for rate card: '' @ name)])))"
      by (rule Cons.IH)
    with Inr show ?thesis
      by (simp add: Let_def)
  qed
qed

lemma process_graph_failure:
  assumes "n \<in> fst ` set (self_rate_cards self)"
    and "isl (calculate_total_cost (done_order n) self n)"
  shows "fst (process_graph done_order self) = None"
proof -
  from assms(1) have "n \<in> set (map fst (self_rate_cards self))"
    by simp
  from process_loop_failure [where done_order = done_order and results = Map.empty
      and logs = "[]", OF this assms(2)]
  show ?thesis
    by (auto simp: process_graph_def split: prod.splits sum.splits)
qed

lemma option_eq_by_Some: "(\<And>v. a = Some v \<longleftrightarrow> b = Some v) \<Longrightarrow> a = b"
  by (cases a; cases b) auto

text \<open>
  Claim C6. When the total cost of no rate card fails, \<^verbatim>\<open>process_graph\<close> returns a
  dictionary whose entries are exactly the entries of the results that
  \<^verbatim>\<open>calculate_total_cost\<close> returns for the single names of the rate-card mapping, and
  the results of two different names have no top-level key in common: the result is
  their union. The completion orders of the pool in the single invocations
  (\<open>single_order\<close>) and inside \<^verbatim>\<open>process_graph\<close> (\<open>done_order\<close>) are arbitrary.
\<close>

theorem process_graph_union:
  assumes "\<forall>n \<in> fst ` set (self_rate_cards self).
             \<exists>r. calculate_total_cost (single_order n) self n = Inr r"
  shows "\<exists>R. fst (process_graph done_order self) = Some R \<and>
           (\<forall>k v. R k = Some v \<longleftrightarrow>
              (\<exists>n \<in> fst ` set (self_rate_cards self).
                 \<exists>r. calculate_total_cost (single_order n) self n = Inr r \<and> r k = Some v)) \<and>
           (\<forall>n n' r r'. n \<noteq> n' \<longrightarrow>
              calculate_total_cost (single_order n) self n = Inr r \<longrightarrow>
              calculate_total_cost (single_order n') self n' = Inr r' \<longrightarrow>
              dom r \<inter> dom r' = {})"
proof -
  have same: "calculate_total_cost (done_order n) self n = Inr r \<longleftrightarrow>
              calculate_total_cost (single_order n) self n = Inr r" for n r
    by (auto intro: total_cost_order_irrelevant)
  from assms have "\<forall>n \<in> set (map fst (self_rate_cards self)).
                     \<exists>r. calculate_total_cost (done_order n) self n = Inr r"
    by (simp add: same)
  from process_loop_success [OF this, of Map.empty "[]"]
  obtain R logs' where
    p: "process_loop done_order self (map fst (self_rate_cards self)) Map.empty [] = (Inr R, logs')"
    and R: "\<forall>k v. R k = Some v \<longleftrightarrow>
              (\<exists>n \<in> set (map fst (self_rate_cards self)).
                 \<exists>r. calculate_total_cost (done_order n) self n = Inr r \<and> r k = Some v)"
    by auto
  from p have "fst (process_graph done_order self) = Some R"
    by (simp add: process_graph_def)
  moreover from R have "\<forall>k v. R k = Some v \<longleftrightarrow>
              (\<exists>n \<in> fst ` set (self_rate_cards self).
                 \<exists>r. calculate_total_cost (single_order n) self n = Inr r \<and> r k = Some v)"
    by (simp add: same)
  moreover have "dom r \<inter> dom r' = {}"
    if "n \<noteq> n'" "calculate_total_cost (single_order n) self n = Inr r"
      "calculate_total_cost (single_order n') self n' = Inr r'" for n n' r r'
    using that total_cost_dom [OF that(2)] total_cost_dom [OF that(3)]
    by (simp add: results_key_of_inj)
  ultimately show ?thesis
    by blast
qed

theorem process_graph_union_witness:
  "fst (process_graph (\<lambda>n. [0]) test_calculator) =
     Some [''rate_card_rate_card_a'' \<mapsto>
             [''route_A--B'' \<mapsto> RouteRecord (PInt 50) (PStr ''verge'') (PInt 3600),
              ''rate_card_rate_card_a_routes_total'' \<mapsto> RoutesTotal (PInt 3600)],
           ''rate_card_rate_card_b'' \<mapsto>
             [''route_A--B'' \<mapsto> RouteRecord (PInt 50) (PStr ''verge'') (PInt 3220),
              ''rate_card_rate_card_b_routes_total'' \<mapsto> RoutesTotal (PInt 3220)]]"
proof -
  have s: "fst ` set (self_rate_cards test_calculator) = {''rate_card_a'', ''rate_card_b''}"
    by (simp add: test_calculator_def)
  have h: "\<forall>n \<in> fst ` set (self_rate_cards test_calculator).
             \<exists>r. calculate_total_cost ((\<lambda>n. []) n) test_calculator n = Inr r"
    unfolding s by (simp add: test_total_a test_total_b)
  from process_graph_union [OF h, of "\<lambda>n. [0]"] obtain R where
    p: "fst (process_graph (\<lambda>n. [0]) test_calculator) = Some R"
    and R: "\<And>k v. R k = Some v \<longleftrightarrow>
              (\<exists>n \<in> fst ` set (self_rate_cards test_calculator).
                 \<exists>r. calculate_total_cost [] test_calculator n = Inr r \<and> r k = Some v)"
    by blast
  have "R k = [''rate_card_rate_card_a'' \<mapsto>
             [''route_A--B'' \<mapsto> RouteRecord (PInt 50) (PStr ''verge'') (PInt 3600),
              ''rate_card_rate_card_a_routes_total'' \<mapsto> RoutesTotal (PInt 3600)],
           ''rate_card_rate_card_b'' \<mapsto>
             [''route_A--B'' \<mapsto> RouteRecord (PInt 50) (PStr ''verge'') (PInt 3220),
              ''rate_card_rate_card_b_routes_total'' \<mapsto> RoutesTotal (PInt 3220)]] k" for k
    by (rule option_eq_by_Some) (auto simp: R s test_total_a test_total_b)
  then have "R = [''rate_card_rate_card_a'' \<mapsto>
             [''route_A--B'' \<mapsto> RouteRecord (PInt 50) (PStr ''verge'') (PInt 3600),
              ''rate_card_rate_card_a_routes_total'' \<mapsto> RoutesTotal (PInt 3600)],
           ''rate_card_rate_card_b'' \<mapsto>
             [''route_A--B'' \<mapsto> RouteRecord (PInt 50) (PStr ''verge'') (PInt 3220),
              ''rate_card_rate_card_b_routes_total'' \<mapsto> RoutesTotal (PInt 3220)]]"
    by (rule ext)
  with p show ?thesis
    by (simp only:)
qed

text \<open>
  Claim C7. The edge of the graph lacks its \<^verbatim>\<open>length\<close>, so the total cost under the
  first rate card raises \<^verbatim>\<open>TypeError\<close>. \<^verbatim>\<open>process_graph\<close> does not propagate it and
  logs it, but what it returns is Python's \<^verbatim>\<open>None\<close>, not a result dictionary: the
  handler has no \<^verbatim>\<open>return\<close>.
\<close>

theorem process_graph_swallows_error:
  "process_graph (\<lambda>n. [])
     \<lparr>self_graph = graph_without_length,
      self_rate_cards = [(''rate_card_a'', rate_card_a), (''rate_card_b'', rate_card_b)]\<rparr>
   = (None, [LogInfo ''Calculating costs for rate card: rate_card_a'', LogError TypeError])"
proof -
  have t: "get_node_type graph_without_length ''A'' = Inr ''Cabinet''"
    "get_node_type graph_without_length ''B'' = Inr ''Pot''"
    by (simp_all add: graph_without_length_def test_graph_def get_node_type_def dict_index_def
          dict_get_default_def)
  have c: "calculate_route_cost graph_without_length rate_card_a
             (''A'', ''B'', [''material'' \<mapsto> PStr ''verge'']) = Inl TypeError"
    by (simp add: t dict_get_def)
  have e: "edges graph_without_length = [(''A'', ''B'', [''material'' \<mapsto> PStr ''verge''])]"
    by (simp add: graph_without_length_def)
  have n: "rate_card_a \<noteq> []"
    by (simp add: rate_card_a_def)
  have "calculate_total_cost []
     \<lparr>self_graph = graph_without_length,
      self_rate_cards = [(''rate_card_a'', rate_card_a), (''rate_card_b'', rate_card_b)]\<rparr>
     ''rate_card_a'' = Inl TypeError"
    by (simp add: calculate_total_cost_def get_routes_edges e n c gather_single_Inl
          del: calculate_route_cost.simps)
  then show ?thesis
    by (simp add: process_graph_def Let_def)
qed

end
